theory Spec2Isabelle
  imports Main "HOL-Library.AList"
begin

section \<open>JSON payloads and Python dictionaries\<close>

text \<open>
  Payloads are decoded JSON. Python's \<open>None\<close> is \<open>JNull\<close> (what \<open>json.loads\<close> gives for
  \<open>null\<close>, and what \<open>dict.get\<close> gives for a missing key). A dict is an association list
  with distinct keys, in insertion order.
\<close>

datatype json =
    JNull
  | JBool bool
  | JNum int
  | JStr string
  | JList "json list"
  | JObj "(string \<times> json) list"

type_synonym pydict = "(string \<times> json) list"

definition dict_get :: "pydict \<Rightarrow> string \<Rightarrow> json" where
  \<comment> \<open>\<open>d.get(k)\<close>\<close>
  "dict_get d k = (case map_of d k of Some v \<Rightarrow> v | None \<Rightarrow> JNull)"

definition truthy :: "json \<Rightarrow> bool" where
  \<comment> \<open>Python truth value of a decoded JSON value\<close>
  "truthy v = (case v of JNull \<Rightarrow> False | JBool b \<Rightarrow> b | JNum n \<Rightarrow> n \<noteq> 0
     | JStr s \<Rightarrow> s \<noteq> [] | JList l \<Rightarrow> l \<noteq> [] | JObj d \<Rightarrow> d \<noteq> [])"

section \<open>Exceptions\<close>

text \<open>
  The exception classes that \<open>smc/base/model.py\<close> imports from \<open>smc.api.exceptions\<close>,
  and the two built-in ones that attribute access and iteration on a wrong value raise.
  Messages are left out.
\<close>

datatype error =
    ElementNotFound
  | CreateElementFailed
  | ModificationFailed
  | ResourceNotFound
  | DeleteElementFailed
  | FetchElementFailed
  | ActionCommandFailed
  | UpdateElementFailed
  | AttributeError
  | TypeError

section \<open>Identity, classes and the transport\<close>

text \<open>\<open>Meta\<close>: the namedtuple \<open>(name, href, type)\<close>; \<open>href\<close> is its one required field.\<close>

record meta =
  m_name :: json
  m_href :: string
  m_type :: "string option"

text \<open>
  A representation class: which of the two bases it derives from (\<open>Element\<close> has the
  \<open>ElementLocator\<close> descriptor as \<open>href\<close> and keeps \<open>_name\<close>; \<open>SubElement\<close> reads both from
  \<open>meta\<close>) and its \<open>typeof\<close> class attribute, when it declares one.
\<close>

datatype base = PrimaryBase | ReferenceBase

record cls =
  cls_name :: string
  cls_base :: base
  cls_typeof :: "string option"

definition Element :: cls where
  \<comment> \<open>\<open>class Element(ElementBase)\<close>: no \<open>typeof\<close> of its own\<close>
  "Element = \<lparr>cls_name = ''Element'', cls_base = PrimaryBase, cls_typeof = None\<rparr>"

text \<open>The requests a resource instance sends, in the order it sends them.\<close>

datatype request =
    Read "string option"
  | Search json string
  | Update "string option" "pydict option" "string option"
  | Delete "string option" "string option"

text \<open>\<open>SMCResult\<close>: what a request gives back.\<close>

record smc_result =
  res_href :: "string option"
  res_etag :: "string option"
  res_json :: "pydict option"
  res_msg :: "string option"

text \<open>
  Modelled from the spec: the transport collaborator (\<open>smc.api.common\<close>, \<open>smc.api.web\<close>)
  is not part of the sources. Following section 6 of the specification it is a pair of
  oracles: \<open>respond\<close> answers a fetch, an update or a delete with a result that carries
  a version token, a payload or none, and an error message or none; \<open>search\<close> answers a
  name and kind filter with a list of identity triples. Both see the requests sent so
  far, so a reply may differ from one call to the next.
\<close>

record server =
  respond :: "request list \<Rightarrow> request \<Rightarrow> smc_result"
  search :: "request list \<Rightarrow> json \<Rightarrow> string \<Rightarrow> meta list"

definition reports_error :: "smc_result \<Rightarrow> bool" where
  \<comment> \<open>Modelled from the spec: the server reports an error when the result carries an
      error message (\<open>errorMessageOrNone\<close> in section 6)\<close>
  "reports_error r = (res_msg r \<noteq> None)"

section \<open>The instance and the process state around it\<close>

text \<open>
  \<open>Cache._cache\<close> is \<open>None\<close> or a pair \<open>(etag, json)\<close>. The instance's \<open>__dict__\<close> may or
  may not hold a \<open>cache\<close> and a \<open>resource\<close> entry: both are \<open>cached_property\<close>
  attributes, stored on first access and found in \<open>__dict__\<close> from then on.
\<close>

datatype cache_obj = Cache "(string option \<times> pydict option) option"

record element =
  klass :: cls
  name_attr :: json
  meta_attr :: "meta option"
  cache_attr :: "cache_obj option"
  resource_attr :: "pydict option"
  trace :: "request list"
  counters_cache :: int

definition slot :: "element \<Rightarrow> (string option \<times> pydict option) option" where
  \<comment> \<open>\<open>self._cache\<close> of the instance's cache object\<close>
  "slot s = (case cache_attr s of Some (Cache c) \<Rightarrow> c | None \<Rightarrow> None)"

text \<open>
  Modelled from the spec: \<open>SMCRequest\<close> is not part of the sources. \<open>prepared_request\<close>
  documents it: with an exception class the class is raised if the server reports an
  error, without one the result is returned whatever it is. The request is recorded.
\<close>

definition SMCRequest ::
  "server \<Rightarrow> error option \<Rightarrow> request \<Rightarrow> element \<Rightarrow> (error + smc_result) \<times> element" where
  "SMCRequest srv exc req s =
     (let r = respond srv (trace s) req;
          s1 = s\<lparr>trace := trace s @ [req]\<rparr>
      in case exc of
           Some e \<Rightarrow> if reports_error r then (Inl e, s1) else (Inr r, s1)
         | None \<Rightarrow> (Inr r, s1))"

section \<open>Identity locator\<close>

definition name :: "element \<Rightarrow> json" where
  \<comment> \<open>\<open>Element.name\<close> and \<open>SubElement.name\<close>\<close>
  "name s = (case cls_base (klass s) of
       PrimaryBase \<Rightarrow> name_attr s
     | ReferenceBase \<Rightarrow> (case meta_attr s of Some m \<Rightarrow> m_name m | None \<Rightarrow> JNull))"

definition ElementLocator_get :: "server \<Rightarrow> element \<Rightarrow> (error + string option) \<times> element" where
  "ElementLocator_get srv s =
     (case meta_attr s of
        Some m \<Rightarrow> (Inr (Some (m_href m)), s)
      | None \<Rightarrow>
         (case cls_typeof (klass s) of
            Some t \<Rightarrow>
              (let found = search srv (trace s) (name s) t;
                   s1 = s\<lparr>trace := trace s @ [Search (name s) t]\<rparr>
               in case found of
                    m # _ \<Rightarrow> (Inr (Some (m_href m)), s1\<lparr>meta_attr := Some m\<rparr>)
                  | [] \<Rightarrow> (Inl ElementNotFound, s1))
          | None \<Rightarrow> (Inl ElementNotFound, s)))"

definition href :: "server \<Rightarrow> element \<Rightarrow> (error + string option) \<times> element" where
  "href srv s = (case cls_base (klass s) of
       PrimaryBase \<Rightarrow> ElementLocator_get srv s
     | ReferenceBase \<Rightarrow> (Inr (map_option m_href (meta_attr s)), s))"

section \<open>Link table\<close>

definition iter_json :: "json \<Rightarrow> error + json list" where
  \<comment> \<open>\<open>for link in v\<close>: what the loop runs over, or the \<open>TypeError\<close> of a value that is not iterable\<close>
  "iter_json v = (case v of
       JList l \<Rightarrow> Inr l
     | JStr s \<Rightarrow> Inr (map (\<lambda>c. JStr [c]) s)
     | JObj d \<Rightarrow> Inr (map (\<lambda>kv. JStr (fst kv)) d)
     | _ \<Rightarrow> Inl TypeError)"

text \<open>
  \<open>setattr(res, rel, href)\<close> on an \<open>ElementResource\<close> (Python 3 semantics): the name must be a
  string; \<open>__class__\<close> takes only a class and \<open>__weakref__\<close> is not writable, so both raise
  for every JSON value; \<open>__dict__\<close> takes only a dict, which then replaces the attributes
  set so far; every other name is stored.
\<close>

definition setattr_res :: "pydict \<Rightarrow> string \<Rightarrow> json \<Rightarrow> error + pydict" where
  "setattr_res res rel v =
     (if rel = ''__class__'' then Inl TypeError
      else if rel = ''__weakref__'' then Inl AttributeError
      else if rel = ''__dict__'' then (case v of JObj d \<Rightarrow> Inr d | _ \<Rightarrow> Inl TypeError)
      else Inr (AList.update rel v res))"

fun set_links :: "json list \<Rightarrow> pydict \<Rightarrow> error + pydict" where
  "set_links [] res = Inr res"
| "set_links (link # links) res =
     (case link of
        JObj d \<Rightarrow>
          (case dict_get d ''rel'' of
             JStr rel \<Rightarrow>
               (case setattr_res res rel (dict_get d ''href'') of
                  Inl e \<Rightarrow> Inl e
                | Inr res' \<Rightarrow> set_links links res')
           | _ \<Rightarrow> Inl TypeError)
      | _ \<Rightarrow> Inl AttributeError)"

definition make_resource :: "pydict option \<Rightarrow> error + pydict" where
  \<comment> \<open>the body of \<open>ElementBase.resource\<close>, given the value of \<open>self.data\<close>\<close>
  "make_resource p =
     (case p of
        None \<Rightarrow> Inl AttributeError
      | Some d \<Rightarrow>
         (case iter_json (dict_get d ''link'') of
            Inl e \<Rightarrow> Inl e
          | Inr links \<Rightarrow> set_links links []))"

section \<open>Cache\<close>

definition getattr_resource :: "element \<Rightarrow> (error + pydict) \<times> element" where
  \<comment> \<open>\<open>getattr(self.instance, 'resource')\<close> inside \<open>Cache.__call__\<close>, where \<open>_cache\<close> is set:
      an entry of \<open>__dict__\<close> is returned as it is; otherwise the property body runs, its
      \<open>self.data\<close> is one more \<open>__call__\<close> that finds \<open>_cache\<close> set, and the table is stored\<close>
  "getattr_resource s =
     (case resource_attr s of
        Some res \<Rightarrow> (Inr res, s)
      | None \<Rightarrow>
         (let s1 = s\<lparr>counters_cache := counters_cache s + 1\<rparr>
          in case make_resource (case slot s1 of Some c \<Rightarrow> snd c | None \<Rightarrow> None) of
               Inl e \<Rightarrow> (Inl e, s1)
             | Inr res \<Rightarrow> (Inr res, s1\<lparr>resource_attr := Some res\<rparr>)))"

definition Cache_call ::
  "server \<Rightarrow> bool \<Rightarrow> element \<Rightarrow> (error + (string option \<times> pydict option) option) \<times> element" where
  "Cache_call srv force_refresh s =
     (let s0 = s\<lparr>counters_cache := counters_cache s + 1\<rparr>
      in if slot s0 = None \<or> force_refresh then
           (case href srv s0 of
              (Inl e, s1) \<Rightarrow> (Inl e, s1)
            | (Inr h, s1) \<Rightarrow>
               (case SMCRequest srv (Some FetchElementFailed) (Read h) s1 of
                  (Inl e, s2) \<Rightarrow> (Inl e, s2)
                | (Inr result, s2) \<Rightarrow>
                   (let s3 = s2\<lparr>cache_attr := Some (Cache (Some (res_etag result, res_json result)))\<rparr>
                    in case getattr_resource s3 of
                         (Inl e, s4) \<Rightarrow> (Inl e, s4)
                       | (Inr _, s4) \<Rightarrow> (Inr (slot s4), s4))))
         else (Inr (slot s0), s0))"

definition get_cache :: "element \<Rightarrow> element" where
  \<comment> \<open>\<open>self.cache\<close>: the \<open>cached_property\<close> stores \<open>Cache(self)\<close> when \<open>__dict__\<close> has none\<close>
  "get_cache s = (case cache_attr s of Some c \<Rightarrow> s | None \<Rightarrow> s\<lparr>cache_attr := Some (Cache None)\<rparr>)"

definition data :: "server \<Rightarrow> element \<Rightarrow> (error + pydict option) \<times> element" where
  \<comment> \<open>\<open>self.cache.data\<close>, that is \<open>self.cache.__call__()[1]\<close>; indexing \<open>None\<close> would be a
      \<open>TypeError\<close>, but \<open>__call__\<close> returns \<open>_cache\<close> only once it is set\<close>
  "data srv s =
     (case Cache_call srv False (get_cache s) of
        (Inl e, s1) \<Rightarrow> (Inl e, s1)
      | (Inr None, s1) \<Rightarrow> (Inl TypeError, s1)
      | (Inr (Some c), s1) \<Rightarrow> (Inr (snd c), s1))"

definition etag :: "server \<Rightarrow> element \<Rightarrow> (error + string option) \<times> element" where
  "etag srv s =
     (case Cache_call srv False (get_cache s) of
        (Inl e, s1) \<Rightarrow> (Inl e, s1)
      | (Inr None, s1) \<Rightarrow> (Inl TypeError, s1)
      | (Inr (Some c), s1) \<Rightarrow>
         (if fst c = None then
            (case href srv s1 of
               (Inl e, s2) \<Rightarrow> (Inl e, s2)
             | (Inr h, s2) \<Rightarrow>
                (case SMCRequest srv (Some FetchElementFailed) (Read h) s2 of
                   (Inl e, s3) \<Rightarrow> (Inl e, s3)
                 | (Inr result, s3) \<Rightarrow>
                    (Inr (res_etag result),
                     s3\<lparr>cache_attr := Some (Cache (Some (res_etag result, snd c)))\<rparr>)))
          else (Inr (fst c), s1)))"

definition resource :: "server \<Rightarrow> element \<Rightarrow> (error + pydict) \<times> element" where
  \<comment> \<open>\<open>self.resource\<close> read from outside the cache: the \<open>cached_property\<close> returns the entry
      of \<open>__dict__\<close> when there is one, and runs the body and stores its value otherwise\<close>
  "resource srv s =
     (case resource_attr s of
        Some res \<Rightarrow> (Inr res, s)
      | None \<Rightarrow>
         (case data srv s of
            (Inl e, s1) \<Rightarrow> (Inl e, s1)
          | (Inr p, s1) \<Rightarrow>
             (case make_resource p of
                Inl e \<Rightarrow> (Inl e, s1)
              | Inr res \<Rightarrow> (Inr res, s1\<lparr>resource_attr := Some res\<rparr>))))"

section \<open>Base resource lifecycle\<close>

definition delete :: "server \<Rightarrow> element \<Rightarrow> (error + unit) \<times> element" where
  "delete srv s =
     (case href srv s of
        (Inl e, s1) \<Rightarrow> (Inl e, s1)
      | (Inr h, s1) \<Rightarrow>
         (case etag srv s1 of
            (Inl e, s2) \<Rightarrow> (Inl e, s2)
          | (Inr t, s2) \<Rightarrow>
             (case SMCRequest srv (Some DeleteElementFailed) (Delete h t) s2 of
                (Inl e, s3) \<Rightarrow> (Inl e, s3)
              | (Inr _, s3) \<Rightarrow> (Inr (), s3))))"

text \<open>
  \<open>update(*exception, **kwargs)\<close>: each of \<open>href\<close>, \<open>json\<close> and \<open>etag\<close> is taken from the
  keyword arguments when the key is there (\<open>Some v\<close>, where \<open>v\<close> may be \<open>None\<close>) and from
  the instance otherwise, in this order. \<open>copy.deepcopy\<close> of a value is the value.
  \<open>del self.cache\<close> removes the entry of \<open>__dict__\<close> and raises \<open>AttributeError\<close> when
  there is none.
\<close>

definition update ::
  "server \<Rightarrow> error option \<Rightarrow> string option option \<Rightarrow> pydict option option \<Rightarrow>
   string option option \<Rightarrow> element \<Rightarrow> (error + string option) \<times> element" where
  "update srv exception kw_href kw_json kw_etag s =
     (case (case kw_href of Some h \<Rightarrow> (Inr h, s) | None \<Rightarrow> href srv s) of
        (Inl e, s1) \<Rightarrow> (Inl e, s1)
      | (Inr h, s1) \<Rightarrow>
         (case (case kw_json of Some j \<Rightarrow> (Inr j, s1) | None \<Rightarrow> data srv s1) of
            (Inl e, s2) \<Rightarrow> (Inl e, s2)
          | (Inr j, s2) \<Rightarrow>
             (case (case kw_etag of Some t \<Rightarrow> (Inr t, s2) | None \<Rightarrow> etag srv s2) of
                (Inl e, s3) \<Rightarrow> (Inl e, s3)
              | (Inr t, s3) \<Rightarrow>
                 (case cache_attr s3 of
                    None \<Rightarrow> (Inl AttributeError, s3)
                  | Some _ \<Rightarrow>
                     (let s4 = s3\<lparr>cache_attr := None\<rparr>;
                          exc = (case exception of None \<Rightarrow> UpdateElementFailed | Some e \<Rightarrow> e)
                      in case SMCRequest srv (Some exc) (Update h j t) s4 of
                           (Inl e, s5) \<Rightarrow> (Inl e, s5)
                         | (Inr result, s5) \<Rightarrow> (Inr (res_href result), s5))))))"

text \<open>
  Modelled from the spec: \<open>merge_dicts\<close> (\<open>smc.base.util\<close>) is not part of the sources.
  The specification says that the given fields are merged into the payload, a
  list-valued field replacing the old value by default and being appended to it when
  the caller opts in.
\<close>

fun merge_dicts :: "pydict \<Rightarrow> pydict \<Rightarrow> bool \<Rightarrow> pydict" where
  "merge_dicts dict1 [] append_lists = dict1"
| "merge_dicts dict1 ((k, v) # dict2) append_lists =
     merge_dicts
       (AList.update k
          (case (v, map_of dict1 k) of
             (JList new, Some (JList old)) \<Rightarrow> if append_lists then JList (old @ new) else v
           | _ \<Rightarrow> v)
          dict1)
       dict2 append_lists"

definition set_payload :: "pydict \<Rightarrow> element \<Rightarrow> element" where
  \<comment> \<open>the dict that \<open>_cache[1]\<close> refers to has been changed in place to \<open>d\<close>\<close>
  "set_payload d s =
     (case slot s of
        Some c \<Rightarrow> s\<lparr>cache_attr := Some (Cache (Some (fst c, Some d)))\<rparr>
      | None \<Rightarrow> s)"

text \<open>
  \<open>modify_attribute(**kwargs)\<close>. The call \<open>merge_dicts(self.data, kwargs, append_lists)\<close>
  drops the result of \<open>merge_dicts\<close>: what it does, it does to its first argument, and
  that is the object \<open>self.data\<close> returns, the dict held in the cache pair.
\<close>

definition modify_attribute :: "server \<Rightarrow> pydict \<Rightarrow> element \<Rightarrow> (error + unit) \<times> element" where
  "modify_attribute srv kwargs s =
     (case data srv s of
        (Inl e, s1) \<Rightarrow> (Inl e, s1)
      | (Inr None, s1) \<Rightarrow> (Inl AttributeError, s1)
      | (Inr (Some d), s1) \<Rightarrow>
         (if dict_get d ''system'' = JBool True then (Inl ModificationFailed, s1)
          else
            (let append_lists =
                   (case map_of kwargs ''append_lists'' of Some v \<Rightarrow> truthy v | None \<Rightarrow> False);
                 kwargs' = AList.delete ''append_lists'' kwargs
             in case data srv s1 of
                  (Inl e, s2) \<Rightarrow> (Inl e, s2)
                | (Inr None, s2) \<Rightarrow> (Inl TypeError, s2)
                | (Inr (Some d'), s2) \<Rightarrow>
                   (case update srv None None None None
                           (set_payload (merge_dicts d' kwargs' append_lists) s2) of
                      (Inl e, s3) \<Rightarrow> (Inl e, s3)
                    | (Inr _, s3) \<Rightarrow> (Inr (), s3)))))"

section \<open>Type registry and factory\<close>

definition lookup_class :: "(string \<rightharpoonup> cls) \<Rightarrow> string option \<Rightarrow> cls" where
  \<comment> \<open>\<open>Registry._registry.get(typeof, Element)\<close>; the registry's keys are tags, never \<open>None\<close>\<close>
  "lookup_class registry typeof =
     (case typeof of
        None \<Rightarrow> Element
      | Some t \<Rightarrow> (case registry t of Some c \<Rightarrow> c | None \<Rightarrow> Element))"

definition new_instance :: "cls \<Rightarrow> json \<Rightarrow> meta option \<Rightarrow> request list \<Rightarrow> int \<Rightarrow> element" where
  \<comment> \<open>\<open>cls(name, **meta)\<close> for a primary class and \<open>cls(**meta)\<close> for a reference-only one:
      nothing is fetched, \<open>__dict__\<close> has neither \<open>cache\<close> nor \<open>resource\<close>\<close>
  "new_instance c nm m tr n =
     \<lparr>klass = c,
      name_attr = (case cls_base c of PrimaryBase \<Rightarrow> nm | ReferenceBase \<Rightarrow> JNull),
      meta_attr = m, cache_attr = None, resource_attr = None,
      trace = tr, counters_cache = n\<rparr>"

definition add_cache :: "pydict option \<Rightarrow> string option \<Rightarrow> element \<Rightarrow> element" where
  \<comment> \<open>\<open>self.cache = Cache(self, json, etag)\<close>: the pair is kept only when \<open>json\<close> is not \<open>None\<close>\<close>
  "add_cache js t s =
     s\<lparr>cache_attr := Some (Cache (case js of Some d \<Rightarrow> Some (t, Some d) | None \<Rightarrow> None))\<rparr>"

text \<open>
  \<open>ElementFactory(href)\<close>, run after the requests \<open>tr\<close> with the counter at \<open>n\<close>. The
  registry (\<open>smc.base.resource\<close>) and \<open>find_type_from_self\<close> (\<open>smc.base.util\<close>) are not part
  of the sources: the registry is a parameter, a map from tags to classes, and
  \<open>find_type_from_self\<close> is a parameter that gives a tag, \<open>None\<close> or an exception for the
  value of the payload's \<open>link\<close> field. A function that falls off its end returns \<open>None\<close>.
\<close>

definition ElementFactory ::
  "server \<Rightarrow> (string \<rightharpoonup> cls) \<Rightarrow> (json \<Rightarrow> error + string option) \<Rightarrow> string \<Rightarrow>
   request list \<Rightarrow> int \<Rightarrow> (error + element option) \<times> request list" where
  "ElementFactory srv registry find_type_from_self h tr n =
     (let element = respond srv tr (Read (Some h));
          tr1 = tr @ [Read (Some h)]
      in case res_json element of
           None \<Rightarrow> (Inr None, tr1)
         | Some js \<Rightarrow>
            (if js = [] then (Inr None, tr1)
             else
               (case find_type_from_self (dict_get js ''link'') of
                  Inl e \<Rightarrow> (Inl e, tr1)
                | Inr istype \<Rightarrow>
                   (let e = new_instance (lookup_class registry istype) (dict_get js ''name'')
                              (Some \<lparr>m_name = dict_get js ''name'', m_href = h, m_type = istype\<rparr>)
                              tr1 n
                    in (Inr (Some (add_cache (Some js) (res_etag element) e)), tr1)))))"

definition from_href ::
  "server \<Rightarrow> (string \<rightharpoonup> cls) \<Rightarrow> (json \<Rightarrow> error + string option) \<Rightarrow> string \<Rightarrow>
   request list \<Rightarrow> int \<Rightarrow> (error + element option) \<times> request list" where
  \<comment> \<open>\<open>Element.from_href\<close>\<close>
  "from_href srv registry find_type_from_self h tr n =
     ElementFactory srv registry find_type_from_self h tr n"

section \<open>Example instances and servers\<close>

text \<open>
  A host named \<open>kali\<close> at \<open>/elements/host/12\<close> with its payload, the payload the
  server has after an edit, and a system-protected payload. Four servers: one accepts
  every request (and answers with the edited payload once it has seen a request), one
  rejects every request and finds nothing, one serves reads and rejects every update,
  one answers every request with the system-protected payload.
\<close>

definition Host :: cls where
  "Host = \<lparr>cls_name = ''Host'', cls_base = PrimaryBase, cls_typeof = Some ''host''\<rparr>"

definition kali_meta :: meta where
  "kali_meta = \<lparr>m_name = JStr ''kali'', m_href = ''/elements/host/12'', m_type = Some ''host''\<rparr>"

definition kali_payload :: pydict where
  "kali_payload =
     [(''name'', JStr ''kali''), (''system'', JBool False),
      (''link'', JList [JObj [(''rel'', JStr ''self''), (''href'', JStr ''/elements/host/12'')]])]"

definition kali_payload_later :: pydict where
  "kali_payload_later =
     [(''name'', JStr ''kali''), (''system'', JBool False), (''comment'', JStr ''edited''),
      (''link'', JList [JObj [(''rel'', JStr ''self''), (''href'', JStr ''/elements/host/12'')],
                        JObj [(''rel'', JStr ''export''), (''href'', JStr ''/elements/host/12/export'')]])]"

definition any_payload :: pydict where
  "any_payload =
     [(''name'', JStr ''ANY''), (''system'', JBool True),
      (''link'', JList [JObj [(''rel'', JStr ''self''), (''href'', JStr ''/elements/host/12'')]])]"

definition reply :: "string \<Rightarrow> pydict \<Rightarrow> smc_result" where
  "reply t d = \<lparr>res_href = Some ''/elements/host/12'', res_etag = Some t, res_json = Some d, res_msg = None\<rparr>"

definition rejection :: smc_result where
  "rejection = \<lparr>res_href = None, res_etag = None, res_json = None, res_msg = Some ''HTTP error''\<rparr>"

definition accepting :: server where
  "accepting = \<lparr>respond = (\<lambda>tr rq. if tr = [] then reply ''v1'' kali_payload else reply ''v2'' kali_payload_later),
                search = (\<lambda>tr nm kind. [kali_meta])\<rparr>"

definition rejecting :: server where
  "rejecting = \<lparr>respond = (\<lambda>tr rq. rejection), search = (\<lambda>tr nm kind. [])\<rparr>"

definition conflicting :: server where
  "conflicting = \<lparr>respond = (\<lambda>tr rq. case rq of Update _ _ _ \<Rightarrow> rejection | _ \<Rightarrow> reply ''v2'' kali_payload_later),
                  search = (\<lambda>tr nm kind. [kali_meta])\<rparr>"

definition protecting :: server where
  "protecting = \<lparr>respond = (\<lambda>tr rq. reply ''v1'' any_payload), search = (\<lambda>tr nm kind. [kali_meta])\<rparr>"

definition kali_by_name :: element where
  "kali_by_name = new_instance Host (JStr ''kali'') None [] 0"

definition kali :: element where
  "kali = new_instance Host (JStr ''kali'') (Some kali_meta) [] 0"

definition kali_cached :: element where
  "kali_cached = add_cache (Some kali_payload) (Some ''v1'') kali"

definition kali_seeded :: element where
  "kali_seeded = add_cache (Some kali_payload) None kali"

definition kali_seeded_by_name :: element where
  "kali_seeded_by_name = add_cache (Some kali_payload) (Some ''v1'') kali_by_name"

definition any_cached :: element where
  "any_cached = add_cache (Some any_payload) (Some ''v1'') kali"

definition host_kind :: "json \<Rightarrow> error + string option" where
  "host_kind links = (case links of JList _ \<Rightarrow> Inr (Some ''host'') | _ \<Rightarrow> Inl TypeError)"

text \<open>
  The host after its payload has been read, after an \<open>update()\<close> that followed, after
  the payload has been read again, and after a forced refresh instead of the update.
\<close>

definition kali_read :: element where
  "kali_read = snd (data accepting kali)"

definition kali_updated :: element where
  "kali_updated = snd (update accepting None None None None kali_read)"

definition kali_reread :: element where
  "kali_reread = snd (data accepting kali_updated)"

definition kali_refreshed :: element where
  "kali_refreshed = snd (Cache_call accepting True kali_read)"

text \<open>
  The host built from its name after its href has been resolved and after its version
  token has been read, and the system-protected element after its payload has been read.
\<close>

definition kali_found :: element where
  "kali_found = snd (href accepting kali_by_name)"

definition kali_fetched :: element where
  "kali_fetched = snd (etag accepting kali_found)"

definition any_read :: element where
  "any_read = snd (data protecting kali)"

section \<open>Basic facts\<close>

lemmas ex_defs = Host_def kali_meta_def kali_payload_def kali_payload_later_def any_payload_def reply_def
  rejection_def accepting_def rejecting_def conflicting_def protecting_def kali_by_name_def kali_def
  kali_cached_def kali_seeded_def kali_seeded_by_name_def any_cached_def host_kind_def
  new_instance_def add_cache_def reports_error_def dict_get_def name_def slot_def

lemmas run_defs = data_def etag_def update_def delete_def modify_attribute_def Cache_call_def get_cache_def
  href_def ElementLocator_get_def SMCRequest_def getattr_resource_def make_resource_def iter_json_def
  setattr_res_def set_payload_def resource_def Let_def

lemma slot_Some_get_cache: "slot s = Some c \<Longrightarrow> get_cache s = s"
  by (auto simp: slot_def get_cache_def split: option.splits)

lemma slot_counters [simp]: "slot (s\<lparr>counters_cache := n\<rparr>) = slot s"
  by (simp add: slot_def)

lemma slot_trace [simp]: "slot (s\<lparr>trace := tr\<rparr>) = slot s"
  by (simp add: slot_def)

lemma slot_meta [simp]: "slot (s\<lparr>meta_attr := m\<rparr>) = slot s"
  by (simp add: slot_def)

lemma slot_resource [simp]: "slot (s\<lparr>resource_attr := r\<rparr>) = slot s"
  by (simp add: slot_def)

lemma slot_cache [simp]: "slot (s\<lparr>cache_attr := Some (Cache c)\<rparr>) = c"
  by (simp add: slot_def)

lemma Cache_call_hit:
  "slot s = Some c \<Longrightarrow>
   Cache_call srv False s = (Inr (Some c), s\<lparr>counters_cache := counters_cache s + 1\<rparr>)"
  by (simp add: Cache_call_def Let_def)

lemma data_hit:
  "slot s = Some c \<Longrightarrow> data srv s = (Inr (snd c), s\<lparr>counters_cache := counters_cache s + 1\<rparr>)"
  by (simp add: data_def slot_Some_get_cache Cache_call_hit)

lemma href_known:
  "meta_attr s = Some m \<Longrightarrow> href srv s = (Inr (Some (m_href m)), s)"
  by (simp add: href_def ElementLocator_get_def split: base.splits)

lemma getattr_resource_frame:
  "getattr_resource s = (r, s') \<Longrightarrow>
   slot s' = slot s \<and> trace s' = trace s \<and> meta_attr s' = meta_attr s \<and> klass s' = klass s
   \<and> cache_attr s' = cache_attr s"
  by (auto simp: getattr_resource_def Let_def slot_def split: option.splits sum.splits)

lemma getattr_resource_kept:
  "resource_attr s = Some res \<Longrightarrow> getattr_resource s = (Inr res, s)"
  by (simp add: getattr_resource_def)

lemma etag_hit:
  "slot s = Some (Some t, p) \<Longrightarrow>
   etag srv s = (Inr (Some t), s\<lparr>counters_cache := counters_cache s + 1\<rparr>)"
  by (simp add: etag_def slot_Some_get_cache Cache_call_hit)

lemma slot_Some_cache_attr: "slot s = Some c \<Longrightarrow> cache_attr s = Some (Cache (Some c))"
  by (auto simp: slot_def split: option.splits cache_obj.splits)

lemma href_counters:
  "href srv (s\<lparr>counters_cache := n\<rparr>) =
     (fst (href srv s), (snd (href srv s))\<lparr>counters_cache := n\<rparr>)"
  by (simp add: href_def ElementLocator_get_def name_def Let_def
           split: base.splits option.splits list.splits)

lemma href_cache:
  "href srv (s\<lparr>cache_attr := c\<rparr>) = (fst (href srv s), (snd (href srv s))\<lparr>cache_attr := c\<rparr>)"
  by (simp add: href_def ElementLocator_get_def name_def Let_def
           split: base.splits option.splits list.splits)

lemma href_frame:
  "href srv s = (r, s') \<Longrightarrow>
   cache_attr s' = cache_attr s \<and> resource_attr s' = resource_attr s
   \<and> counters_cache s' = counters_cache s \<and> klass s' = klass s
   \<and> (trace s' = trace s \<or> (\<exists>nm kind. trace s' = trace s @ [Search nm kind]))"
  by (auto simp: href_def ElementLocator_get_def Let_def
           split: base.splits option.splits list.splits)

lemma set_payload_hit:
  "slot s = Some (t, p) \<Longrightarrow> set_payload d s = s\<lparr>cache_attr := Some (Cache (Some (t, Some d)))\<rparr>"
  by (simp add: set_payload_def)

lemma update_sends:
  assumes "slot s = Some (Some t, Some d)" and "meta_attr s = Some m"
  shows "update srv None None None None s =
           (if reports_error (respond srv (trace s) (Update (Some (m_href m)) (Some d) (Some t)))
            then Inl UpdateElementFailed
            else Inr (res_href (respond srv (trace s) (Update (Some (m_href m)) (Some d) (Some t)))),
            s\<lparr>counters_cache := counters_cache s + 2,
              cache_attr := None,
              trace := trace s @ [Update (Some (m_href m)) (Some d) (Some t)]\<rparr>)"
  using assms
  by (simp add: update_def href_known data_hit etag_hit slot_Some_cache_attr SMCRequest_def Let_def)

lemma Cache_call_fetch:
  assumes "slot s = None \<or> force_refresh" and "meta_attr s = Some m"
  shows "Cache_call srv force_refresh s =
     (let r = respond srv (trace s) (Read (Some (m_href m)));
          s2 = s\<lparr>counters_cache := counters_cache s + 1, trace := trace s @ [Read (Some (m_href m))]\<rparr>
      in if reports_error r then (Inl FetchElementFailed, s2)
         else (case getattr_resource (s2\<lparr>cache_attr := Some (Cache (Some (res_etag r, res_json r)))\<rparr>) of
                 (Inl e, s4) \<Rightarrow> (Inl e, s4)
               | (Inr _, s4) \<Rightarrow> (Inr (slot s4), s4)))"
  using assms
  by (auto simp: Cache_call_def href_known SMCRequest_def Let_def)

lemma get_cache_frame [simp]:
  "slot (get_cache s) = slot s" "meta_attr (get_cache s) = meta_attr s" "trace (get_cache s) = trace s"
  "counters_cache (get_cache s) = counters_cache s" "resource_attr (get_cache s) = resource_attr s"
  by (auto simp: get_cache_def slot_def split: option.splits)

lemma data_miss_result:
  assumes "slot s = None" and "meta_attr s = Some m" and "data srv s = (Inr p, s1)"
  shows "trace s1 = trace s @ [Read (Some (m_href m))]
         \<and> \<not> reports_error (respond srv (trace s) (Read (Some (m_href m))))
         \<and> p = res_json (respond srv (trace s) (Read (Some (m_href m))))
         \<and> slot s1 = Some (res_etag (respond srv (trace s) (Read (Some (m_href m)))), p)"
proof -
  let ?r = "respond srv (trace s) (Read (Some (m_href m)))"
  let ?s3 = "(get_cache s)\<lparr>counters_cache := counters_cache s + 1,
               trace := trace s @ [Read (Some (m_href m))],
               cache_attr := Some (Cache (Some (res_etag ?r, res_json ?r)))\<rparr>"
  have cc: "Cache_call srv False (get_cache s) =
     (if reports_error ?r then (Inl FetchElementFailed,
          (get_cache s)\<lparr>counters_cache := counters_cache s + 1, trace := trace s @ [Read (Some (m_href m))]\<rparr>)
      else (case getattr_resource ?s3 of
                 (Inl e, s4) \<Rightarrow> (Inl e, s4)
               | (Inr _, s4) \<Rightarrow> (Inr (slot s4), s4)))"
    using Cache_call_fetch [of "get_cache s" False m srv] assms(1,2) by (simp add: Let_def)
  show ?thesis
    using assms(3)
    by (auto simp: data_def cc split: if_splits sum.splits prod.splits option.splits
             dest!: getattr_resource_frame)
qed

lemma data_rejected:
  assumes "slot s = None" and "meta_attr s = Some m"
    and "reports_error (respond srv (trace s) (Read (Some (m_href m))))"
  shows "data srv s = (Inl FetchElementFailed,
           (get_cache s)\<lparr>counters_cache := counters_cache s + 1, trace := trace s @ [Read (Some (m_href m))]\<rparr>)"
  using Cache_call_fetch [of "get_cache s" False m srv] assms by (simp add: data_def Let_def)

lemma refetch_keeps_link_table:
  assumes "resource_attr s = Some res" and "meta_attr s = Some m"
    and "\<not> reports_error (respond srv (trace s) (Read (Some (m_href m))))"
  shows "Cache_call srv True s =
           (Inr (Some (res_etag (respond srv (trace s) (Read (Some (m_href m)))),
                       res_json (respond srv (trace s) (Read (Some (m_href m)))))),
            s\<lparr>counters_cache := counters_cache s + 1,
              trace := trace s @ [Read (Some (m_href m))],
              cache_attr := Some (Cache (Some (res_etag (respond srv (trace s) (Read (Some (m_href m)))),
                                               res_json (respond srv (trace s) (Read (Some (m_href m)))))))\<rparr>)"
  using Cache_call_fetch [of s True m srv] assms
  by (simp add: Let_def getattr_resource_kept)

lemma modify_attribute_href_fails:
  assumes "slot s = Some (t, Some d)" and "dict_get d ''system'' \<noteq> JBool True"
    and "href srv s = (Inl e, s')"
  shows "modify_attribute srv kwargs s =
           (Inl e,
            s'\<lparr>counters_cache := counters_cache s + 2,
               cache_attr := Some (Cache (Some (t, Some (merge_dicts d (AList.delete ''append_lists'' kwargs)
                 (case map_of kwargs ''append_lists'' of Some v \<Rightarrow> truthy v | None \<Rightarrow> False)))))\<rparr>)"
  using assms
  by (simp add: modify_attribute_def data_hit set_payload_hit update_def href_cache href_counters)

lemma etag_payload_frame:
  assumes "slot s = Some (None, Some d)"
  shows "map_option snd (slot (snd (etag srv s))) = Some (Some d)"
proof -
  let ?s0 = "s\<lparr>counters_cache := counters_cache s + 1\<rparr>"
  have cc: "Cache_call srv False (get_cache s) = (Inr (Some (None, Some d)), ?s0)"
    using assms by (simp add: slot_Some_get_cache Cache_call_hit)
  obtain r s2 where h: "href srv ?s0 = (r, s2)" by (cases "href srv ?s0")
  have fr: "slot s2 = Some (None, Some d)"
    using href_frame [OF h] assms by (simp add: slot_def)
  show ?thesis
    using fr by (cases r) (auto simp: etag_def cc h SMCRequest_def Let_def)
qed

lemma href_settled:
  assumes "href srv s = (Inr h, s1)" and "klass s' = klass s1" and "meta_attr s' = meta_attr s1"
  shows "href srv s' = (Inr h, s')"
  using assms
  by (auto simp: href_def ElementLocator_get_def Let_def
           split: base.splits option.splits list.splits)

lemma href_settles_meta:
  assumes "href srv s = (Inr h, s1)"
  shows "klass s1 = klass s \<and> (cls_base (klass s1) = ReferenceBase \<or> meta_attr s1 \<noteq> None)"
  using assms
  by (auto simp: href_def ElementLocator_get_def Let_def
           split: base.splits option.splits list.splits)

lemma href_keeps_meta:
  assumes "href srv s = (r, s')" and "cls_base (klass s) = ReferenceBase \<or> meta_attr s \<noteq> None"
  shows "klass s' = klass s \<and> meta_attr s' = meta_attr s"
  using assms
  by (auto simp: href_def ElementLocator_get_def Let_def
           split: base.splits option.splits list.splits)

lemma SMCRequest_frame:
  "SMCRequest srv exc rq s = (r, s') \<Longrightarrow> s' = s\<lparr>trace := trace s @ [rq]\<rparr>"
  by (auto simp: SMCRequest_def Let_def split: option.splits if_splits)

lemma Cache_call_settled:
  assumes "Cache_call srv force s = (r, s')"
    and "cls_base (klass s) = ReferenceBase \<or> meta_attr s \<noteq> None"
  shows "klass s' = klass s \<and> meta_attr s' = meta_attr s \<and> (\<forall>c. r = Inr c \<longrightarrow> c = slot s' \<and> c \<noteq> None)"
proof -
  let ?s0 = "s\<lparr>counters_cache := counters_cache s + 1\<rparr>"
  show ?thesis
  proof (cases "slot ?s0 = None \<or> force")
    case False
    then show ?thesis using assms(1) by (auto simp: Cache_call_def Let_def)
  next
    case True
    obtain rh s1 where h: "href srv ?s0 = (rh, s1)" by (cases "href srv ?s0")
    have k1: "klass s1 = klass s \<and> meta_attr s1 = meta_attr s"
      using href_keeps_meta [OF h] assms(2) by simp
    show ?thesis
    proof (cases rh)
      case (Inl e)
      then show ?thesis using assms(1) True h k1 by (auto simp: Cache_call_def Let_def)
    next
      case (Inr hh)
      obtain rr s2 where q: "SMCRequest srv (Some FetchElementFailed) (Read hh) s1 = (rr, s2)"
        by (cases "SMCRequest srv (Some FetchElementFailed) (Read hh) s1")
      have k2: "klass s2 = klass s \<and> meta_attr s2 = meta_attr s"
        using SMCRequest_frame [OF q] k1 by simp
      show ?thesis
      proof (cases rr)
        case (Inl e)
        then show ?thesis using assms(1) True h Inr q k2 by (auto simp: Cache_call_def Let_def)
      next
        case (Inr result)
        let ?s3 = "s2\<lparr>cache_attr := Some (Cache (Some (res_etag result, res_json result)))\<rparr>"
        obtain rg s4 where g: "getattr_resource ?s3 = (rg, s4)" by (cases "getattr_resource ?s3")
        have k4: "klass s4 = klass s \<and> meta_attr s4 = meta_attr s
                  \<and> slot s4 = Some (res_etag result, res_json result)"
          using getattr_resource_frame [OF g] k2 by simp
        have "Cache_call srv force s =
                (case getattr_resource ?s3 of (Inl e, s4) \<Rightarrow> (Inl e, s4) | (Inr _, s4) \<Rightarrow> (Inr (slot s4), s4))"
          using True h \<open>rh = Inr hh\<close> q Inr by (simp add: Cache_call_def Let_def)
        then show ?thesis using assms(1) g k4 by (cases rg) auto
      qed
    qed
  qed
qed

lemma get_cache_klass [simp]: "klass (get_cache s) = klass s"
  by (auto simp: get_cache_def split: option.splits)

lemma etag_settled:
  assumes "etag srv s = (Inr t, s')"
    and "cls_base (klass s) = ReferenceBase \<or> meta_attr s \<noteq> None"
  shows "klass s' = klass s \<and> meta_attr s' = meta_attr s \<and> (\<exists>p. slot s' = Some (t, p))"
proof -
  obtain r s1 where c: "Cache_call srv False (get_cache s) = (r, s1)"
    by (cases "Cache_call srv False (get_cache s)")
  have st: "cls_base (klass (get_cache s)) = ReferenceBase \<or> meta_attr (get_cache s) \<noteq> None"
    using assms(2) by simp
  note k1 = Cache_call_settled [OF c st]
  show ?thesis
  proof (cases r)
    case (Inl e)
    then show ?thesis using assms(1) c by (simp add: etag_def)
  next
    case (Inr co)
    with k1 obtain c0 where co: "co = Some c0" and sl: "slot s1 = Some c0" by auto
    show ?thesis
    proof (cases "fst c0 = None")
      case False
      then have "s' = s1 \<and> t = fst c0"
        using assms(1) c Inr co by (cases "fst c0") (auto simp: etag_def)
      then show ?thesis using k1 sl by (cases c0) auto
    next
      case True
      obtain rh s2 where h: "href srv s1 = (rh, s2)" by (cases "href srv s1")
      have st1: "cls_base (klass s1) = ReferenceBase \<or> meta_attr s1 \<noteq> None"
        using k1 assms(2) by simp
      have k2: "klass s2 = klass s \<and> meta_attr s2 = meta_attr s"
        using href_keeps_meta [OF h st1] k1 by simp
      show ?thesis
      proof (cases rh)
        case (Inl e)
        then show ?thesis using assms(1) c Inr co True h by (simp add: etag_def)
      next
        case (Inr hh)
        obtain rr s3 where q: "SMCRequest srv (Some FetchElementFailed) (Read hh) s2 = (rr, s3)"
          by (cases "SMCRequest srv (Some FetchElementFailed) (Read hh) s2")
        have k3: "klass s3 = klass s \<and> meta_attr s3 = meta_attr s"
          using SMCRequest_frame [OF q] k2 by simp
        show ?thesis
          using assms(1) c \<open>r = Inr co\<close> co True h Inr q k3
          by (cases rr) (auto simp: etag_def)
      qed
    qed
  qed
qed

text \<open>
  The example instances, evaluated.
\<close>

lemma kali_facts:
  "meta_attr kali = Some kali_meta" "slot kali = None" "trace kali = []"
  "meta_attr kali_cached = Some kali_meta" "slot kali_cached = Some (Some ''v1'', Some kali_payload)"
  "counters_cache kali_cached = 0" "trace kali_cached = []" "m_href kali_meta = ''/elements/host/12''"
  by (simp_all add: ex_defs)

lemma kali_read_eq:
  "kali_read = kali\<lparr>counters_cache := 2, trace := [Read (Some ''/elements/host/12'')],
       cache_attr := Some (Cache (Some (Some ''v1'', Some kali_payload))),
       resource_attr := Some [(''self'', JStr ''/elements/host/12'')]\<rparr>"
  by (simp add: kali_read_def ex_defs run_defs)

lemma data_kali: "data accepting kali = (Inr (Some kali_payload), kali_read)"
  unfolding kali_read_eq by (simp add: ex_defs run_defs)

lemma kali_read_facts:
  "trace kali_read = [Read (Some ''/elements/host/12'')]" "counters_cache kali_read = 2"
  unfolding kali_read_eq by simp_all

lemma merged_comment:
  "kali_payload @ [(''comment'', JStr ''test'')]
        = merge_dicts kali_payload (AList.delete ''append_lists'' [(''comment'', JStr ''test'')])
            (case map_of [(''comment'', JStr ''test'')] ''append_lists'' of Some v \<Rightarrow> truthy v | None \<Rightarrow> False)"
  by (simp add: kali_payload_def)

lemma seeded_by_name_facts:
  "slot kali_seeded_by_name = Some (Some ''v1'', Some kali_payload)"
  "dict_get kali_payload ''system'' \<noteq> JBool True"
  "href rejecting kali_seeded_by_name =
        (Inl ElementNotFound, kali_seeded_by_name\<lparr>trace := [Search (JStr ''kali'') ''host'']\<rparr>)"
  "counters_cache kali_seeded_by_name = 0"
  "\<not> reports_error (respond accepting [] (Update (Some ''/elements/host/12'')
                        (Some (kali_payload @ [(''comment'', JStr ''test'')])) (Some ''v1'')))"
  by (simp_all add: ex_defs run_defs)

lemma seeded_facts:
  "slot kali_seeded = Some (None, Some kali_payload)"
  "href conflicting kali_seeded = (Inr (Some ''/elements/host/12''), kali_seeded)"
  "\<not> reports_error (respond conflicting [] (Read (Some ''/elements/host/12'')))"
  "res_etag (respond conflicting [] (Read (Some ''/elements/host/12''))) = Some ''v2''"
  "res_json (respond conflicting [] (Read (Some ''/elements/host/12''))) = Some kali_payload_later"
  "counters_cache kali_seeded = 0" "trace kali_seeded = []"
  by (simp_all add: ex_defs run_defs)

lemma kali_rejected_facts:
  "reports_error (respond rejecting (trace kali) (Read (Some (m_href kali_meta))))"
  "get_cache kali = kali\<lparr>cache_attr := Some (Cache None)\<rparr>"
  "counters_cache kali = 0"
  by (simp_all add: ex_defs run_defs)

lemma kali_found_eq:
  "kali_found = kali_by_name\<lparr>trace := [Search (JStr ''kali'') ''host''], meta_attr := Some kali_meta\<rparr>"
  by (simp add: kali_found_def ex_defs run_defs)

lemma kali_fetched_eq:
  "kali_fetched = kali_by_name\<lparr>trace := [Search (JStr ''kali'') ''host'', Read (Some ''/elements/host/12'')],
       meta_attr := Some kali_meta, counters_cache := 2,
       cache_attr := Some (Cache (Some (Some ''v2'', Some kali_payload_later))),
       resource_attr := Some [(''self'', JStr ''/elements/host/12''),
                              (''export'', JStr ''/elements/host/12/export'')]\<rparr>"
  by (simp add: kali_fetched_def kali_found_eq) (simp add: ex_defs run_defs)

lemma by_name_facts:
  "href accepting kali_by_name = (Inr (Some ''/elements/host/12''), kali_found)"
  "etag accepting kali_found = (Inr (Some ''v2''), kali_fetched)"
  "trace kali_fetched = [Search (JStr ''kali'') ''host'', Read (Some ''/elements/host/12'')]"
  "counters_cache kali_fetched = 2"
  "slot kali_fetched = Some (Some ''v2'', Some kali_payload_later)"
  "\<not> reports_error (respond accepting [Search (JStr ''kali'') ''host'', Read (Some ''/elements/host/12'')]
         (Delete (Some ''/elements/host/12'') (Some ''v2'')))"
  unfolding kali_fetched_eq kali_found_eq by (simp_all add: ex_defs run_defs)

lemma cached_facts:
  "href accepting kali_cached = (Inr (Some ''/elements/host/12''), kali_cached)"
  "etag accepting kali_cached = (Inr (Some ''v1''), kali_cached\<lparr>counters_cache := 1\<rparr>)"
  "\<not> reports_error (respond accepting [] (Delete (Some ''/elements/host/12'') (Some ''v1'')))"
  by (simp_all add: ex_defs run_defs)

lemma any_read_eq:
  "any_read = kali\<lparr>counters_cache := 2, trace := [Read (Some ''/elements/host/12'')],
       cache_attr := Some (Cache (Some (Some ''v1'', Some any_payload))),
       resource_attr := Some [(''self'', JStr ''/elements/host/12'')]\<rparr>"
  by (simp add: any_read_def protecting_def ex_defs run_defs)

lemma any_facts:
  "dict_get any_payload ''system'' = JBool True"
  "slot any_cached = Some (Some ''v1'', Some any_payload)"
  "counters_cache any_cached = 0" "trace any_cached = []"
  "data protecting kali = (Inr (Some any_payload), any_read)"
  "trace any_read = [Read (Some ''/elements/host/12'')]"
  unfolding any_read_eq by (simp_all add: any_cached_def protecting_def ex_defs run_defs)

section \<open>A rejected update (C1)\<close>

text \<open>
  A host with a populated cache, \<open>update()\<close> without arguments, a server that rejects
  the write: \<open>UpdateElementFailed\<close> is raised, and the instance has no cache entry left.
  The cache is not what it was before the call.
\<close>

theorem update_rejected_counterexample:
  "slot kali_cached = Some (Some ''v1'', Some kali_payload)
   \<and> reports_error (respond conflicting (trace kali_cached)
         (Update (Some ''/elements/host/12'') (Some kali_payload) (Some ''v1'')))
   \<and> fst (update conflicting None None None None kali_cached) = Inl UpdateElementFailed
   \<and> cache_attr (snd (update conflicting None None None None kali_cached)) = None
   \<and> cache_attr (snd (update conflicting None None None None kali_cached)) \<noteq> cache_attr kali_cached"
  by (simp add: ex_defs run_defs)

text \<open>
  C1, amended. For every instance with a known href whose cache holds a version token
  and a payload: when \<open>update()\<close> is called without a payload, href or token of the
  caller's and the server rejects the write, \<open>UpdateElementFailed\<close> is raised, exactly
  one request has been sent (the update, to the href, with the cached payload and the
  cached token), and the cache entry has been deleted: \<open>del self.cache\<close> runs before the
  request is sent, so the next read fetches again. Identity and link table are as
  before.
\<close>

theorem update_rejected_clears_cache:
  assumes "slot s = Some (Some t, Some d)" and "meta_attr s = Some m"
    and "reports_error (respond srv (trace s) (Update (Some (m_href m)) (Some d) (Some t)))"
  shows "update srv None None None None s =
           (Inl UpdateElementFailed,
            s\<lparr>counters_cache := counters_cache s + 2,
              cache_attr := None,
              trace := trace s @ [Update (Some (m_href m)) (Some d) (Some t)]\<rparr>)"
  using assms
  by (simp add: update_def href_known data_hit etag_hit slot_Some_cache_attr SMCRequest_def Let_def)

theorem update_rejected_clears_cache_witness:
  "slot kali_cached = Some (Some ''v1'', Some kali_payload)
   \<and> meta_attr kali_cached = Some kali_meta
   \<and> reports_error (respond conflicting (trace kali_cached)
         (Update (Some (m_href kali_meta)) (Some kali_payload) (Some ''v1'')))
   \<and> update conflicting None None None None kali_cached =
        (Inl UpdateElementFailed,
         kali_cached\<lparr>counters_cache := 2, cache_attr := None,
                      trace := [Update (Some ''/elements/host/12'') (Some kali_payload) (Some ''v1'')]\<rparr>)"
proof -
  have h: "slot kali_cached = Some (Some ''v1'', Some kali_payload)"
    "meta_attr kali_cached = Some kali_meta"
    "reports_error (respond conflicting (trace kali_cached)
         (Update (Some (m_href kali_meta)) (Some kali_payload) (Some ''v1'')))"
    by (simp_all add: ex_defs run_defs)
  have v: "counters_cache kali_cached = 0" "trace kali_cached = []" "m_href kali_meta = ''/elements/host/12''"
    by (simp_all add: ex_defs)
  show ?thesis
    using update_rejected_clears_cache [OF h] h by (simp add: v)
qed

section \<open>Merging fields (C2)\<close>

text \<open>
  A host built from its name, with a seeded cache, that the server does not know:
  \<open>modify_attribute(comment='test')\<close> raises \<open>ElementNotFound\<close> when \<open>update()\<close> asks for
  the href, after the merge. No update has been sent, and the payload in the cache has
  the new field: the merge was applied to the cached payload itself.
\<close>

theorem modify_attribute_counterexample:
  "slot kali_seeded_by_name = Some (Some ''v1'', Some kali_payload)
   \<and> dict_get kali_payload ''system'' \<noteq> JBool True
   \<and> fst (modify_attribute rejecting [(''comment'', JStr ''test'')] kali_seeded_by_name) = Inl ElementNotFound
   \<and> trace (snd (modify_attribute rejecting [(''comment'', JStr ''test'')] kali_seeded_by_name))
        = [Search (JStr ''kali'') ''host'']
   \<and> slot (snd (modify_attribute rejecting [(''comment'', JStr ''test'')] kali_seeded_by_name))
        = Some (Some ''v1'', Some (kali_payload @ [(''comment'', JStr ''test'')]))
   \<and> slot (snd (modify_attribute rejecting [(''comment'', JStr ''test'')] kali_seeded_by_name))
        \<noteq> slot kali_seeded_by_name"
  by (simp add: ex_defs run_defs)

text \<open>
  C2, amended. For every instance whose cache holds a version token and a payload that
  is not system-protected, \<open>modify_attribute\<close> merges the given fields into the cached
  payload itself, and \<open>update()\<close> then works from a deep copy of this merged payload.
  With a known href exactly one request is sent, the update of the href with the merged
  payload and the cached token, the cache entry is deleted before it is sent, and
  \<open>UpdateElementFailed\<close> is raised if the server rejects it. When the href cannot be
  resolved, the exception of the resolution is raised and the cache keeps the merged
  payload.
\<close>

theorem modify_attribute_merges_in_place:
  assumes "slot s = Some (Some t, Some d)" and "dict_get d ''system'' \<noteq> JBool True"
    and "merged = merge_dicts d (AList.delete ''append_lists'' kwargs)
                    (case map_of kwargs ''append_lists'' of Some v \<Rightarrow> truthy v | None \<Rightarrow> False)"
  shows "(meta_attr s = Some m \<longrightarrow>
            modify_attribute srv kwargs s =
              (if reports_error (respond srv (trace s) (Update (Some (m_href m)) (Some merged) (Some t)))
               then Inl UpdateElementFailed else Inr (),
               s\<lparr>counters_cache := counters_cache s + 4,
                 cache_attr := None,
                 trace := trace s @ [Update (Some (m_href m)) (Some merged) (Some t)]\<rparr>))
       \<and> (href srv s = (Inl e, s') \<longrightarrow>
            modify_attribute srv kwargs s =
              (Inl e, s'\<lparr>counters_cache := counters_cache s + 2,
                         cache_attr := Some (Cache (Some (Some t, Some merged)))\<rparr>))"
proof (intro conjI impI)
  assume known: "meta_attr s = Some m"
  let ?s1 = "s\<lparr>counters_cache := counters_cache s + 1\<rparr>"
  let ?s2 = "s\<lparr>counters_cache := counters_cache s + 2\<rparr>"
  let ?s3 = "set_payload merged ?s2"
  have d1: "data srv s = (Inr (Some d), ?s1)"
    using assms(1) by (simp add: data_hit)
  have d2: "data srv ?s1 = (Inr (Some d), ?s2)"
    using assms(1) by (simp add: data_hit)
  have s3: "?s3 = ?s2\<lparr>cache_attr := Some (Cache (Some (Some t, Some merged)))\<rparr>"
    using assms(1) by (simp add: set_payload_hit)
  have slot3: "slot ?s3 = Some (Some t, Some merged)" and meta3: "meta_attr ?s3 = Some m"
    unfolding s3 using known by simp_all
  have u: "update srv None None None None ?s3 =
           (if reports_error (respond srv (trace s) (Update (Some (m_href m)) (Some merged) (Some t)))
            then Inl UpdateElementFailed
            else Inr (res_href (respond srv (trace s) (Update (Some (m_href m)) (Some merged) (Some t)))),
            s\<lparr>counters_cache := counters_cache s + 4,
              cache_attr := None,
              trace := trace s @ [Update (Some (m_href m)) (Some merged) (Some t)]\<rparr>)"
    using update_sends [OF slot3 meta3, of srv] by (simp add: s3)
  show "modify_attribute srv kwargs s =
              (if reports_error (respond srv (trace s) (Update (Some (m_href m)) (Some merged) (Some t)))
               then Inl UpdateElementFailed else Inr (),
               s\<lparr>counters_cache := counters_cache s + 4,
                 cache_attr := None,
                 trace := trace s @ [Update (Some (m_href m)) (Some merged) (Some t)]\<rparr>)"
    using assms(2) by (simp add: modify_attribute_def d1 d2 u assms(3) [symmetric])
next
  assume "href srv s = (Inl e, s')"
  then show "modify_attribute srv kwargs s =
              (Inl e, s'\<lparr>counters_cache := counters_cache s + 2,
                         cache_attr := Some (Cache (Some (Some t, Some merged)))\<rparr>)"
    using modify_attribute_href_fails [OF assms(1,2), of srv e s' kwargs] by (simp add: assms(3))
qed

theorem modify_attribute_merges_in_place_witness:
  "slot kali_cached = Some (Some ''v1'', Some kali_payload)
   \<and> slot kali_seeded_by_name = Some (Some ''v1'', Some kali_payload)
   \<and> dict_get kali_payload ''system'' \<noteq> JBool True
   \<and> meta_attr kali_cached = Some kali_meta
   \<and> modify_attribute accepting [(''comment'', JStr ''test'')] kali_cached =
        (Inr (),
         kali_cached\<lparr>counters_cache := 4, cache_attr := None,
            trace := [Update (Some ''/elements/host/12'')
                        (Some (kali_payload @ [(''comment'', JStr ''test'')])) (Some ''v1'')]\<rparr>)
   \<and> href rejecting kali_seeded_by_name =
        (Inl ElementNotFound, kali_seeded_by_name\<lparr>trace := [Search (JStr ''kali'') ''host'']\<rparr>)
   \<and> modify_attribute rejecting [(''comment'', JStr ''test'')] kali_seeded_by_name =
        (Inl ElementNotFound,
         kali_seeded_by_name\<lparr>trace := [Search (JStr ''kali'') ''host''], counters_cache := 2,
            cache_attr := Some (Cache (Some (Some ''v1'', Some (kali_payload @ [(''comment'', JStr ''test'')]))))\<rparr>)"
proof -
  note sent = modify_attribute_merges_in_place [OF kali_facts(5) seeded_by_name_facts(2) merged_comment,
      where m = kali_meta and srv = accepting and e = ElementNotFound and s' = kali_cached]
  note kept = modify_attribute_merges_in_place [OF seeded_by_name_facts(1,2) merged_comment,
      where m = kali_meta and srv = rejecting and e = ElementNotFound
        and s' = "kali_seeded_by_name\<lparr>trace := [Search (JStr ''kali'') ''host'']\<rparr>"]
  have a: "modify_attribute accepting [(''comment'', JStr ''test'')] kali_cached =
        (Inr (),
         kali_cached\<lparr>counters_cache := 4, cache_attr := None,
            trace := [Update (Some ''/elements/host/12'')
                        (Some (kali_payload @ [(''comment'', JStr ''test'')])) (Some ''v1'')]\<rparr>)"
    using sent kali_facts(4) by (simp add: kali_facts(6,7,8) seeded_by_name_facts(5))
  have b: "modify_attribute rejecting [(''comment'', JStr ''test'')] kali_seeded_by_name =
        (Inl ElementNotFound,
         kali_seeded_by_name\<lparr>trace := [Search (JStr ''kali'') ''host''], counters_cache := 2,
            cache_attr := Some (Cache (Some (Some ''v1'', Some (kali_payload @ [(''comment'', JStr ''test'')]))))\<rparr>)"
    using kept seeded_by_name_facts(3) by (simp add: seeded_by_name_facts(4))
  show ?thesis
    using a b kali_facts(4,5) seeded_by_name_facts(1,2,3) by simp
qed

section \<open>The link table after a second fetch (C3)\<close>

text \<open>
  C3. The link table is to be rebuilt from the new payload whenever the cache becomes
  populated. \<open>Cache.__call__\<close> asks for \<open>resource\<close> after every fetch, but \<open>resource\<close> is a
  \<open>cached_property\<close>: once \<open>__dict__\<close> holds a table, that table is returned and the
  property body does not run. Here the host is read (the table has the link \<open>self\<close>),
  then updated, which deletes the cache, then read again; the server now gives a payload
  with a second link, \<open>export\<close>. The cache holds the new payload and the link table is
  still the one of the first payload. The same holds after a forced refresh.
\<close>

theorem link_table_stale_after_refetch:
  "resource_attr kali_read = Some [(''self'', JStr ''/elements/host/12'')]
   \<and> slot kali_read = Some (Some ''v1'', Some kali_payload)
   \<and> cache_attr kali_updated = None
   \<and> slot kali_reread = Some (Some ''v2'', Some kali_payload_later)
   \<and> resource_attr kali_reread = Some [(''self'', JStr ''/elements/host/12'')]
   \<and> slot kali_refreshed = Some (Some ''v2'', Some kali_payload_later)
   \<and> resource_attr kali_refreshed = Some [(''self'', JStr ''/elements/host/12'')]
   \<and> make_resource (Some kali_payload_later)
        = Inr [(''self'', JStr ''/elements/host/12''), (''export'', JStr ''/elements/host/12/export'')]"
  by (simp add: kali_read_eq kali_updated_def kali_reread_def kali_refreshed_def ex_defs run_defs)

section \<open>Delete (C4)\<close>

text \<open>
  A host with a populated cache is deleted and the server accepts: the delete request
  went to the href with the cached token; \<open>data\<close>, \<open>href\<close> and \<open>etag\<close> of the instance
  succeed afterwards.
\<close>

theorem delete_counterexample:
  "fst (delete accepting kali_cached) = Inr ()
   \<and> trace (snd (delete accepting kali_cached)) = [Delete (Some ''/elements/host/12'') (Some ''v1'')]
   \<and> fst (data accepting (snd (delete accepting kali_cached))) = Inr (Some kali_payload)
   \<and> fst (href accepting (snd (delete accepting kali_cached))) = Inr (Some ''/elements/host/12'')
   \<and> fst (etag accepting (snd (delete accepting kali_cached))) = Inr (Some ''v1'')"
  by (simp add: ex_defs run_defs)

text \<open>
  C4, amended. For every instance whose href resolves and whose version token can be
  read (from the cache, or by the fetch that reading \<open>etag\<close> makes when the cache is
  empty or holds no token), \<open>delete()\<close> sends, after the requests of these two reads,
  exactly one request: the delete of the href with the token as the \<open>if-match\<close>
  precondition; the token is the one the cache holds at that moment.
  \<open>DeleteElementFailed\<close> is raised if the server rejects the request. The delete changes
  nothing of the instance, whatever the server answers: identity, cache and link table
  stay, there is no deleted state, and \<open>data\<close> and \<open>href\<close> go on returning the cached
  payload and the href without a request, as does \<open>etag\<close> when the token is not \<open>None\<close>.
\<close>

theorem delete_sends_token_keeps_state:
  assumes "href srv s = (Inr h, s1)" and "etag srv s1 = (Inr t, s2)"
  shows "delete srv s =
           (if reports_error (respond srv (trace s2) (Delete h t))
            then Inl DeleteElementFailed else Inr (),
            s2\<lparr>trace := trace s2 @ [Delete h t]\<rparr>)
         \<and> (\<exists>p. slot s2 = Some (t, p)
                \<and> data srv (snd (delete srv s)) =
                    (Inr p, (snd (delete srv s))\<lparr>counters_cache := counters_cache s2 + 1\<rparr>))
         \<and> href srv (snd (delete srv s)) = (Inr h, snd (delete srv s))
         \<and> (t \<noteq> None \<longrightarrow>
              etag srv (snd (delete srv s)) =
                (Inr t, (snd (delete srv s))\<lparr>counters_cache := counters_cache s2 + 1\<rparr>))"
proof -
  let ?sd = "s2\<lparr>trace := trace s2 @ [Delete h t]\<rparr>"
  have del: "delete srv s =
           (if reports_error (respond srv (trace s2) (Delete h t))
            then Inl DeleteElementFailed else Inr (), ?sd)"
    using assms by (simp add: delete_def SMCRequest_def Let_def)
  have sd: "snd (delete srv s) = ?sd" by (simp add: del)
  have st1: "cls_base (klass s1) = ReferenceBase \<or> meta_attr s1 \<noteq> None"
    using href_settles_meta [OF assms(1)] by blast
  from etag_settled [OF assms(2) st1]
  obtain p where k: "klass s2 = klass s1" "meta_attr s2 = meta_attr s1" and sl: "slot s2 = Some (t, p)"
    by auto
  have sld: "slot ?sd = Some (t, p)" using sl by simp
  have d: "data srv ?sd = (Inr p, ?sd\<lparr>counters_cache := counters_cache s2 + 1\<rparr>)"
    using data_hit [OF sld, of srv] by simp
  have hr: "href srv ?sd = (Inr h, ?sd)"
    using href_settled [OF assms(1), of ?sd] k by simp
  have et: "t \<noteq> None \<longrightarrow> etag srv ?sd = (Inr t, ?sd\<lparr>counters_cache := counters_cache s2 + 1\<rparr>)"
  proof
    assume "t \<noteq> None"
    then obtain tok where tok: "t = Some tok" by auto
    show "etag srv ?sd = (Inr t, ?sd\<lparr>counters_cache := counters_cache s2 + 1\<rparr>)"
      using etag_hit [of ?sd tok p srv] sld tok by simp
  qed
  show ?thesis
    unfolding sd using del sl d hr et by (simp add: sd)
qed

theorem delete_sends_token_keeps_state_witness:
  "href accepting kali_by_name = (Inr (Some ''/elements/host/12''), kali_found)
   \<and> etag accepting kali_found = (Inr (Some ''v2''), kali_fetched)
   \<and> trace kali_fetched = [Search (JStr ''kali'') ''host'', Read (Some ''/elements/host/12'')]
   \<and> delete accepting kali_by_name =
        (Inr (), kali_fetched\<lparr>trace := [Search (JStr ''kali'') ''host'', Read (Some ''/elements/host/12''),
                                        Delete (Some ''/elements/host/12'') (Some ''v2'')]\<rparr>)
   \<and> data accepting (snd (delete accepting kali_by_name)) =
        (Inr (Some kali_payload_later), (snd (delete accepting kali_by_name))\<lparr>counters_cache := 3\<rparr>)
   \<and> href accepting (snd (delete accepting kali_by_name)) =
        (Inr (Some ''/elements/host/12''), snd (delete accepting kali_by_name))
   \<and> etag accepting (snd (delete accepting kali_by_name)) =
        (Inr (Some ''v2''), (snd (delete accepting kali_by_name))\<lparr>counters_cache := 3\<rparr>)
   \<and> href accepting kali_cached = (Inr (Some ''/elements/host/12''), kali_cached)
   \<and> etag accepting kali_cached = (Inr (Some ''v1''), kali_cached\<lparr>counters_cache := 1\<rparr>)
   \<and> delete accepting kali_cached =
        (Inr (), kali_cached\<lparr>counters_cache := 1,
                   trace := [Delete (Some ''/elements/host/12'') (Some ''v1'')]\<rparr>)"
proof -
  note scen = delete_sends_token_keeps_state [OF by_name_facts(1,2)]
  note cach = delete_sends_token_keeps_state [OF cached_facts(1,2)]
  have a: "delete accepting kali_by_name =
        (Inr (), kali_fetched\<lparr>trace := [Search (JStr ''kali'') ''host'', Read (Some ''/elements/host/12''),
                                        Delete (Some ''/elements/host/12'') (Some ''v2'')]\<rparr>)"
    using scen by_name_facts(6) by (auto simp: by_name_facts(3))
  have b: "data accepting (snd (delete accepting kali_by_name)) =
        (Inr (Some kali_payload_later), (snd (delete accepting kali_by_name))\<lparr>counters_cache := 3\<rparr>)"
    using scen by (auto simp: by_name_facts(4,5))
  have c: "href accepting (snd (delete accepting kali_by_name)) =
        (Inr (Some ''/elements/host/12''), snd (delete accepting kali_by_name))"
    using scen by blast
  have d: "etag accepting (snd (delete accepting kali_by_name)) =
        (Inr (Some ''v2''), (snd (delete accepting kali_by_name))\<lparr>counters_cache := 3\<rparr>)"
    using scen by (auto simp: by_name_facts(4))
  have e: "delete accepting kali_cached =
        (Inr (), kali_cached\<lparr>counters_cache := 1,
                   trace := [Delete (Some ''/elements/host/12'') (Some ''v1'')]\<rparr>)"
    using cach cached_facts(3) by (auto simp: kali_facts(7))
  show ?thesis
    using a b c d e by_name_facts(1,2,3) cached_facts(1,2) by simp
qed

section \<open>Identity resolution (C5)\<close>

text \<open>
  C5. An instance of a primary class that declares a resource-kind tag, built from a name
  only (no \<open>meta\<close>), whose name and kind search finds at least one identity: the first
  read of \<open>href\<close> sends exactly one search, binds the first identity found onto the
  instance and returns its href. A second read returns the same href and leaves the
  instance and the list of requests as they are: no further search is sent.
\<close>

theorem href_resolved_once:
  assumes "cls_base (klass s) = PrimaryBase" and "meta_attr s = None"
    and "cls_typeof (klass s) = Some kind"
    and "search srv (trace s) (name s) kind = m # ms"
  shows "href srv s =
           (Inr (Some (m_href m)),
            s\<lparr>trace := trace s @ [Search (name s) kind], meta_attr := Some m\<rparr>)
         \<and> href srv (snd (href srv s)) = (Inr (Some (m_href m)), snd (href srv s))"
  using assms by (simp add: href_def ElementLocator_get_def Let_def)

theorem href_resolved_once_witness:
  "cls_base (klass kali_by_name) = PrimaryBase \<and> meta_attr kali_by_name = None
   \<and> cls_typeof (klass kali_by_name) = Some ''host''
   \<and> search accepting (trace kali_by_name) (name kali_by_name) ''host'' = [kali_meta]
   \<and> href accepting kali_by_name =
        (Inr (Some ''/elements/host/12''),
         kali_by_name\<lparr>trace := [Search (JStr ''kali'') ''host''], meta_attr := Some kali_meta\<rparr>)
   \<and> href accepting (snd (href accepting kali_by_name)) =
        (Inr (Some ''/elements/host/12''),
         kali_by_name\<lparr>trace := [Search (JStr ''kali'') ''host''], meta_attr := Some kali_meta\<rparr>)"
proof -
  have h: "cls_base (klass kali_by_name) = PrimaryBase" "meta_attr kali_by_name = None"
      "cls_typeof (klass kali_by_name) = Some ''host''"
      "search accepting (trace kali_by_name) (name kali_by_name) ''host'' = kali_meta # []"
    by (simp_all add: ex_defs)
  have n: "name kali_by_name = JStr ''kali''" "trace kali_by_name = []" "m_href kali_meta = ''/elements/host/12''"
    by (simp_all add: ex_defs)
  show ?thesis
    using href_resolved_once [OF h] h by (auto simp: n)
qed

section \<open>Reading the payload twice (C6)\<close>

text \<open>
  A host with a known href and an empty cache, on a server that rejects the read: each
  of two reads of \<open>data\<close> raises \<open>FetchElementFailed\<close>, and each sends a fetch. A failed
  fetch leaves the cache empty.
\<close>

theorem data_twice_counterexample:
  "meta_attr kali = Some kali_meta
   \<and> fst (data rejecting kali) = Inl FetchElementFailed
   \<and> fst (data rejecting (snd (data rejecting kali))) = Inl FetchElementFailed
   \<and> trace (snd (data rejecting (snd (data rejecting kali))))
        = [Read (Some ''/elements/host/12''), Read (Some ''/elements/host/12'')]"
  by (simp add: ex_defs run_defs)

text \<open>
  C6, amended. For every instance with a known href: if the cache is empty and the first
  read of \<open>data\<close> returns a payload, then this read has sent exactly one request, the
  fetch of the href, and a second read returns the same payload and sends nothing; if
  the cache is populated, both reads return the cached payload and none of them sends a
  request; if the cache is empty and the server rejects the fetch, the read raises
  \<open>FetchElementFailed\<close> after this one fetch and the cache stays empty.
\<close>

theorem data_twice_one_fetch:
  assumes "meta_attr s = Some m"
  shows "(slot s = None \<and> data srv s = (Inr p, s1) \<longrightarrow>
            trace s1 = trace s @ [Read (Some (m_href m))]
            \<and> data srv s1 = (Inr p, s1\<lparr>counters_cache := counters_cache s1 + 1\<rparr>))
       \<and> (slot s = Some c \<longrightarrow>
            data srv s = (Inr (snd c), s\<lparr>counters_cache := counters_cache s + 1\<rparr>)
            \<and> data srv (snd (data srv s)) = (Inr (snd c), s\<lparr>counters_cache := counters_cache s + 2\<rparr>))
       \<and> (slot s = None \<and> reports_error (respond srv (trace s) (Read (Some (m_href m)))) \<longrightarrow>
            data srv s = (Inl FetchElementFailed,
               (get_cache s)\<lparr>counters_cache := counters_cache s + 1,
                              trace := trace s @ [Read (Some (m_href m))]\<rparr>)
            \<and> slot (snd (data srv s)) = None)"
proof (intro conjI impI)
  assume a: "slot s = None \<and> data srv s = (Inr p, s1)"
  then have r: "trace s1 = trace s @ [Read (Some (m_href m))]"
    and sl: "slot s1 = Some (res_etag (respond srv (trace s) (Read (Some (m_href m)))), p)"
    using data_miss_result [OF _ assms, of srv p s1] by simp_all
  show "trace s1 = trace s @ [Read (Some (m_href m))]" by (rule r)
  show "data srv s1 = (Inr p, s1\<lparr>counters_cache := counters_cache s1 + 1\<rparr>)"
    using data_hit [OF sl, of srv] by simp
next
  assume c: "slot s = Some c"
  show "data srv s = (Inr (snd c), s\<lparr>counters_cache := counters_cache s + 1\<rparr>)"
    using c by (rule data_hit)
  then show "data srv (snd (data srv s)) = (Inr (snd c), s\<lparr>counters_cache := counters_cache s + 2\<rparr>)"
    using c by (simp add: data_hit)
next
  assume b: "slot s = None \<and> reports_error (respond srv (trace s) (Read (Some (m_href m))))"
  then show d: "data srv s = (Inl FetchElementFailed,
               (get_cache s)\<lparr>counters_cache := counters_cache s + 1,
                              trace := trace s @ [Read (Some (m_href m))]\<rparr>)"
    using data_rejected [OF _ assms, of srv] by simp
  show "slot (snd (data srv s)) = None"
    using b by (simp add: d)
qed

theorem data_twice_one_fetch_witness:
  "meta_attr kali = Some kali_meta \<and> slot kali = None
   \<and> data accepting kali = (Inr (Some kali_payload), kali_read)
   \<and> trace kali_read = [Read (Some ''/elements/host/12'')]
   \<and> data accepting kali_read = (Inr (Some kali_payload), kali_read\<lparr>counters_cache := 3\<rparr>)
   \<and> meta_attr kali_cached = Some kali_meta
   \<and> slot kali_cached = Some (Some ''v1'', Some kali_payload)
   \<and> data accepting kali_cached = (Inr (Some kali_payload), kali_cached\<lparr>counters_cache := 1\<rparr>)
   \<and> data accepting (snd (data accepting kali_cached)) =
        (Inr (Some kali_payload), kali_cached\<lparr>counters_cache := 2\<rparr>)
   \<and> reports_error (respond rejecting (trace kali) (Read (Some (m_href kali_meta))))
   \<and> data rejecting kali =
        (Inl FetchElementFailed,
         kali\<lparr>cache_attr := Some (Cache None), counters_cache := 1,
              trace := [Read (Some ''/elements/host/12'')]\<rparr>)"
proof -
  have cold: "trace kali_read = trace kali @ [Read (Some (m_href kali_meta))]
      \<and> data accepting kali_read = (Inr (Some kali_payload), kali_read\<lparr>counters_cache := counters_cache kali_read + 1\<rparr>)"
    using data_twice_one_fetch [OF kali_facts(1), where srv = accepting and p = "Some kali_payload"
        and ?s1.0 = kali_read and c = "(None, None)"]
      kali_facts(2) data_kali by blast
  have warm: "data accepting kali_cached = (Inr (Some kali_payload), kali_cached\<lparr>counters_cache := counters_cache kali_cached + 1\<rparr>)
      \<and> data accepting (snd (data accepting kali_cached)) =
          (Inr (Some kali_payload), kali_cached\<lparr>counters_cache := counters_cache kali_cached + 2\<rparr>)"
    using data_twice_one_fetch [OF kali_facts(4), where srv = accepting and p = None
        and ?s1.0 = kali_cached and c = "(Some ''v1'', Some kali_payload)"]
      kali_facts(5) by auto
  have rej: "data rejecting kali = (Inl FetchElementFailed,
               (get_cache kali)\<lparr>counters_cache := counters_cache kali + 1,
                              trace := trace kali @ [Read (Some (m_href kali_meta))]\<rparr>)"
    using data_twice_one_fetch [OF kali_facts(1), where srv = rejecting and p = None
        and ?s1.0 = kali and c = "(None, None)"]
      kali_facts(2) kali_rejected_facts(1) by blast
  show ?thesis
    using cold warm rej kali_facts(1,2,4,5) data_kali kali_rejected_facts(1)
    by (auto simp: kali_read_facts kali_facts(3,6,8) kali_rejected_facts(2,3))
qed

section \<open>The factory (C7, C10)\<close>

text \<open>
  C7. When the read of \<open>href\<close> gives a payload that carries a resource-kind tag,
  \<open>ElementFactory\<close> sends this one read and returns an instance of the class the
  registry has for the tag, and of \<open>Element\<close> when the registry has none. The instance
  holds the identity \<open>(name, href, tag)\<close> and a cache seeded with the payload and the
  version token of the read, so that reading \<open>data\<close> returns the payload and sends
  nothing.
\<close>

theorem ElementFactory_registered_class:
  assumes "res_json (respond srv tr (Read (Some h))) = Some js" and "js \<noteq> []"
    and "find_type_from_self (dict_get js ''link'') = Inr (Some tag)"
  shows "\<exists>e. ElementFactory srv registry find_type_from_self h tr n = (Inr (Some e), tr @ [Read (Some h)])
           \<and> (\<forall>c. registry tag = Some c \<longrightarrow> klass e = c)
           \<and> (registry tag = None \<longrightarrow> klass e = Element)
           \<and> meta_attr e = Some \<lparr>m_name = dict_get js ''name'', m_href = h, m_type = Some tag\<rparr>
           \<and> slot e = Some (res_etag (respond srv tr (Read (Some h))), Some js)
           \<and> trace e = tr @ [Read (Some h)]
           \<and> data srv e = (Inr (Some js), e\<lparr>counters_cache := n + 1\<rparr>)"
proof -
  let ?e = "add_cache (Some js) (res_etag (respond srv tr (Read (Some h))))
              (new_instance (lookup_class registry (Some tag)) (dict_get js ''name'')
                 (Some \<lparr>m_name = dict_get js ''name'', m_href = h, m_type = Some tag\<rparr>)
                 (tr @ [Read (Some h)]) n)"
  have made: "ElementFactory srv registry find_type_from_self h tr n = (Inr (Some ?e), tr @ [Read (Some h)])"
    using assms by (simp add: ElementFactory_def Let_def)
  have seeded: "slot ?e = Some (res_etag (respond srv tr (Read (Some h))), Some js)"
    by (simp add: add_cache_def)
  have cnt: "counters_cache ?e = n"
    by (simp add: add_cache_def new_instance_def)
  have "data srv ?e = (Inr (Some js), ?e\<lparr>counters_cache := n + 1\<rparr>)"
    using data_hit [OF seeded, of srv] cnt by simp
  moreover have "klass ?e = lookup_class registry (Some tag)"
    by (simp add: add_cache_def new_instance_def)
  moreover have "meta_attr ?e = Some \<lparr>m_name = dict_get js ''name'', m_href = h, m_type = Some tag\<rparr>"
    and "trace ?e = tr @ [Read (Some h)]"
    by (simp_all add: add_cache_def new_instance_def)
  ultimately show ?thesis
    using made seeded by (auto simp: lookup_class_def)
qed

theorem ElementFactory_registered_class_witness:
  "res_json (respond accepting [] (Read (Some ''/elements/host/12''))) = Some kali_payload
   \<and> kali_payload \<noteq> []
   \<and> host_kind (dict_get kali_payload ''link'') = Inr (Some ''host'')
   \<and> (\<exists>e. ElementFactory accepting [''host'' \<mapsto> Host] host_kind ''/elements/host/12'' [] 0
              = (Inr (Some e), [Read (Some ''/elements/host/12'')])
          \<and> klass e = Host \<and> slot e = Some (Some ''v1'', Some kali_payload)
          \<and> data accepting e = (Inr (Some kali_payload), e\<lparr>counters_cache := 1\<rparr>))
   \<and> (\<exists>e. ElementFactory accepting Map.empty host_kind ''/elements/host/12'' [] 0
              = (Inr (Some e), [Read (Some ''/elements/host/12'')])
          \<and> klass e = Element \<and> slot e = Some (Some ''v1'', Some kali_payload)
          \<and> data accepting e = (Inr (Some kali_payload), e\<lparr>counters_cache := 1\<rparr>))"
proof -
  have h: "res_json (respond accepting [] (Read (Some ''/elements/host/12''))) = Some kali_payload"
    "kali_payload \<noteq> []" "host_kind (dict_get kali_payload ''link'') = Inr (Some ''host'')"
    by (simp_all add: ex_defs)
  have t: "res_etag (respond accepting [] (Read (Some ''/elements/host/12''))) = Some ''v1''"
    by (simp add: ex_defs)
  show ?thesis
    using ElementFactory_registered_class [where srv = accepting and tr = "[]"
        and h = "''/elements/host/12''" and js = kali_payload and find_type_from_self = host_kind
        and tag = "''host''" and registry = "[''host'' \<mapsto> Host]" and n = 0]
      ElementFactory_registered_class [where srv = accepting and tr = "[]"
        and h = "''/elements/host/12''" and js = kali_payload and find_type_from_self = host_kind
        and tag = "''host''" and registry = Map.empty and n = 0] h
    by (simp add: t) blast
qed

text \<open>
  C10. When the read of \<open>href\<close> gives no JSON body (none at all, as for a read the
  server rejects, or an empty one), \<open>ElementFactory\<close> and \<open>Element.from_href\<close> return
  \<open>None\<close>: no exception is raised and no instance is made.
\<close>

theorem ElementFactory_no_body:
  assumes "res_json (respond srv tr (Read (Some h))) = None
           \<or> res_json (respond srv tr (Read (Some h))) = Some []"
  shows "ElementFactory srv registry find_type_from_self h tr n = (Inr None, tr @ [Read (Some h)])
         \<and> from_href srv registry find_type_from_self h tr n = (Inr None, tr @ [Read (Some h)])"
  using assms by (auto simp: ElementFactory_def from_href_def Let_def)

theorem ElementFactory_no_body_witness:
  "res_json (respond rejecting [] (Read (Some ''/elements/host/12''))) = None
   \<and> ElementFactory rejecting [''host'' \<mapsto> Host] host_kind ''/elements/host/12'' [] 0
        = (Inr None, [Read (Some ''/elements/host/12'')])
   \<and> from_href rejecting [''host'' \<mapsto> Host] host_kind ''/elements/host/12'' [] 0
        = (Inr None, [Read (Some ''/elements/host/12'')])"
proof -
  have h: "res_json (respond rejecting [] (Read (Some ''/elements/host/12''))) = None"
    by (simp add: ex_defs)
  show ?thesis
    using ElementFactory_no_body [of rejecting "[]" "''/elements/host/12''" "[''host'' \<mapsto> Host]" host_kind 0] h
    by simp
qed

section \<open>System-protected payloads (C8)\<close>

text \<open>
  A system-protected element with a known href and an empty cache:
  \<open>modify_attribute\<close> reads \<open>self.data\<close> first, which fetches the payload, and raises
  \<open>ModificationFailed\<close> after this request.
\<close>

theorem modify_attribute_system_counterexample:
  "meta_attr kali = Some kali_meta
   \<and> res_json (respond protecting [] (Read (Some ''/elements/host/12''))) = Some any_payload
   \<and> dict_get any_payload ''system'' = JBool True
   \<and> fst (modify_attribute protecting [(''comment'', JStr ''test'')] kali) = Inl ModificationFailed
   \<and> trace kali = []
   \<and> trace (snd (modify_attribute protecting [(''comment'', JStr ''test'')] kali))
        = [Read (Some ''/elements/host/12'')]"
  by (simp add: protecting_def ex_defs run_defs)

text \<open>
  C8, amended. For every instance whose payload has \<open>system\<close> equal to \<open>True\<close>,
  \<open>modify_attribute\<close> raises \<open>ModificationFailed\<close> whatever the fields are, and the only
  requests it sends are those of reading the payload: the state it leaves is the state
  the read of \<open>data\<close> leaves. With the payload in the cache it sends no request; with an
  empty cache and a known href it sends exactly one, the fetch of the payload. Nothing
  is merged and no update is sent.
\<close>

theorem modify_attribute_system_refused:
  assumes "dict_get d ''system'' = JBool True"
  shows "(slot s = Some (t, Some d) \<longrightarrow>
            modify_attribute srv kwargs s =
              (Inl ModificationFailed, s\<lparr>counters_cache := counters_cache s + 1\<rparr>)
            \<and> trace (snd (modify_attribute srv kwargs s)) = trace s)
       \<and> (data srv s = (Inr (Some d), s1) \<longrightarrow>
            modify_attribute srv kwargs s = (Inl ModificationFailed, s1))
       \<and> (slot s = None \<and> meta_attr s = Some m \<and> data srv s = (Inr (Some d), s1) \<longrightarrow>
            trace s1 = trace s @ [Read (Some (m_href m))])"
proof (intro conjI impI)
  assume "slot s = Some (t, Some d)"
  then show "modify_attribute srv kwargs s =
              (Inl ModificationFailed, s\<lparr>counters_cache := counters_cache s + 1\<rparr>)"
    using assms by (simp add: modify_attribute_def data_hit)
  then show "trace (snd (modify_attribute srv kwargs s)) = trace s" by simp
next
  assume "data srv s = (Inr (Some d), s1)"
  then show "modify_attribute srv kwargs s = (Inl ModificationFailed, s1)"
    using assms by (simp add: modify_attribute_def)
next
  assume "slot s = None \<and> meta_attr s = Some m \<and> data srv s = (Inr (Some d), s1)"
  then show "trace s1 = trace s @ [Read (Some (m_href m))]"
    using data_miss_result [of s m srv "Some d" s1] by simp
qed

theorem modify_attribute_system_refused_witness:
  "dict_get any_payload ''system'' = JBool True
   \<and> slot any_cached = Some (Some ''v1'', Some any_payload)
   \<and> modify_attribute rejecting [(''comment'', JStr ''test'')] any_cached
       = (Inl ModificationFailed, any_cached\<lparr>counters_cache := 1\<rparr>)
   \<and> trace (snd (modify_attribute rejecting [(''comment'', JStr ''test'')] any_cached)) = []
   \<and> slot kali = None \<and> meta_attr kali = Some kali_meta
   \<and> data protecting kali = (Inr (Some any_payload), any_read)
   \<and> modify_attribute protecting [(''comment'', JStr ''test'')] kali = (Inl ModificationFailed, any_read)
   \<and> trace any_read = [Read (Some ''/elements/host/12'')]"
proof -
  note warm = modify_attribute_system_refused [OF any_facts(1), where s = any_cached and t = "Some ''v1''"
      and srv = rejecting and kwargs = "[(''comment'', JStr ''test'')]" and ?s1.0 = any_cached and m = kali_meta]
  note cold = modify_attribute_system_refused [OF any_facts(1), where s = kali and t = None
      and srv = protecting and kwargs = "[(''comment'', JStr ''test'')]" and ?s1.0 = any_read and m = kali_meta]
  have a: "modify_attribute rejecting [(''comment'', JStr ''test'')] any_cached
       = (Inl ModificationFailed, any_cached\<lparr>counters_cache := 1\<rparr>)
     \<and> trace (snd (modify_attribute rejecting [(''comment'', JStr ''test'')] any_cached)) = []"
    using warm any_facts(2) by (auto simp: any_facts(3,4))
  have b: "modify_attribute protecting [(''comment'', JStr ''test'')] kali = (Inl ModificationFailed, any_read)"
    using cold any_facts(5) by blast
  show ?thesis
    using a b any_facts(1,2,5,6) kali_facts(1,2) by (simp add: any_facts(4))
qed

section \<open>Backfilling the version token (C9)\<close>

text \<open>
  C9. A cache seeded with a payload and no version token, on an instance whose href
  resolves: the first read of \<open>etag\<close> sends exactly one fetch of the href after the
  resolution; when the server answers it, the token of the answer is returned and the
  cache holds it next to the seeded payload. The payload of the answer is not used:
  whatever the read of \<open>etag\<close> does, the payload held in the cache is the seeded one.
\<close>

theorem etag_backfill_keeps_payload:
  assumes "slot s = Some (None, Some d)"
  shows "(href srv s = (Inr h, s1) \<and> \<not> reports_error (respond srv (trace s1) (Read h)) \<longrightarrow>
          etag srv s =
           (Inr (res_etag (respond srv (trace s1) (Read h))),
            s1\<lparr>counters_cache := counters_cache s + 1,
               trace := trace s1 @ [Read h],
               cache_attr := Some (Cache (Some (res_etag (respond srv (trace s1) (Read h)), Some d)))\<rparr>))
       \<and> map_option snd (slot (snd (etag srv s))) = Some (Some d)"
proof (intro conjI impI)
  assume a: "href srv s = (Inr h, s1) \<and> \<not> reports_error (respond srv (trace s1) (Read h))"
  let ?s0 = "s\<lparr>counters_cache := counters_cache s + 1\<rparr>"
  have "Cache_call srv False (get_cache s) = (Inr (Some (None, Some d)), ?s0)"
    using assms by (simp add: slot_Some_get_cache Cache_call_hit)
  moreover have "href srv ?s0 = (Inr h, s1\<lparr>counters_cache := counters_cache s + 1\<rparr>)"
    using a by (simp add: href_counters)
  moreover have "SMCRequest srv (Some FetchElementFailed) (Read h) (s1\<lparr>counters_cache := counters_cache s + 1\<rparr>)
      = (Inr (respond srv (trace s1) (Read h)),
         s1\<lparr>counters_cache := counters_cache s + 1, trace := trace s1 @ [Read h]\<rparr>)"
    using a by (simp add: SMCRequest_def Let_def)
  ultimately show "etag srv s =
           (Inr (res_etag (respond srv (trace s1) (Read h))),
            s1\<lparr>counters_cache := counters_cache s + 1,
               trace := trace s1 @ [Read h],
               cache_attr := Some (Cache (Some (res_etag (respond srv (trace s1) (Read h)), Some d)))\<rparr>)"
    by (simp add: etag_def)
next
  show "map_option snd (slot (snd (etag srv s))) = Some (Some d)"
    using assms by (rule etag_payload_frame)
qed

theorem etag_backfill_keeps_payload_witness:
  "slot kali_seeded = Some (None, Some kali_payload)
   \<and> href conflicting kali_seeded = (Inr (Some ''/elements/host/12''), kali_seeded)
   \<and> \<not> reports_error (respond conflicting (trace kali_seeded) (Read (Some ''/elements/host/12'')))
   \<and> res_json (respond conflicting (trace kali_seeded) (Read (Some ''/elements/host/12''))) = Some kali_payload_later
   \<and> etag conflicting kali_seeded =
        (Inr (Some ''v2''),
         kali_seeded\<lparr>counters_cache := 1, trace := [Read (Some ''/elements/host/12'')],
                      cache_attr := Some (Cache (Some (Some ''v2'', Some kali_payload)))\<rparr>)
   \<and> map_option snd (slot (snd (etag conflicting kali_seeded))) = Some (Some kali_payload)"
proof -
  note t = etag_backfill_keeps_payload [OF seeded_facts(1), where srv = conflicting
      and h = "Some ''/elements/host/12''" and ?s1.0 = kali_seeded]
  have a: "etag conflicting kali_seeded =
        (Inr (Some ''v2''),
         kali_seeded\<lparr>counters_cache := 1, trace := [Read (Some ''/elements/host/12'')],
                      cache_attr := Some (Cache (Some (Some ''v2'', Some kali_payload)))\<rparr>)"
    using t seeded_facts(2,3) by (auto simp: seeded_facts(4,6,7))
  have b: "map_option snd (slot (snd (etag conflicting kali_seeded))) = Some (Some kali_payload)"
    using t by blast
  show ?thesis
    using a b seeded_facts(1,2,3,5) by (simp add: seeded_facts(7))
qed

end
